theory Spec2Isabelle
  imports Complex_Main "HOL-Library.Monad_Syntax"
begin

section \<open>Strings and the two name patterns of attr-check.ts\<close>

text \<open>
  A JavaScript string is modelled as a \<^typ>\<open>string\<close>, a list of 8-bit code units.
  In that range the line terminators (the characters the regular expression
  dot refuses) are LF and CR, and the white space of \<^verbatim>\<open>\s\<close> and of
  \<^verbatim>\<open>trim\<close> is TAB, LF, VT, FF, CR, SPACE and NBSP.
\<close>

definition isLineTerminator :: "char \<Rightarrow> bool" where
  "isLineTerminator c = (c = CHR 0x0A \<or> c = CHR 0x0D)"

definition isSpaceChar :: "char \<Rightarrow> bool" where
  "isSpaceChar c = (c \<in> set [CHR 0x09, CHR 0x0A, CHR 0x0B, CHR 0x0C, CHR 0x0D, CHR 0x20, CHR 0xA0])"

text \<open>The tail \<^verbatim>\<open>.+$\<close> of a pattern: one or more characters, none a line
  terminator, up to the end of the input (the patterns carry no flag).\<close>

definition dotPlusEnd :: "string \<Rightarrow> bool" where
  "dotPlusEnd s = (s \<noteq> [] \<and> list_all (\<lambda>c. \<not> isLineTerminator c) s)"

text \<open>\<^verbatim>\<open>/^data-.+$/.test(name)\<close>\<close>

definition testDataAttr :: "string \<Rightarrow> bool" where
  "testDataAttr name = (take 5 name = ''data-'' \<and> dotPlusEnd (drop 5 name))"

text \<open>\<^verbatim>\<open>/^aria-.+$|^role$/.test(name)\<close>\<close>

definition testAriaOrRole :: "string \<Rightarrow> bool" where
  "testAriaOrRole name = ((take 5 name = ''aria-'' \<and> dotPlusEnd (drop 5 name)) \<or> name = ''role'')"

text \<open>\<^verbatim>\<open>String.prototype.toLowerCase\<close> on 8-bit code units: A-Z and the
  Latin-1 capitals (0xC0-0xDE without the multiplication sign 0xD7) move up by 0x20.\<close>

definition lowerChar :: "char \<Rightarrow> char" where
  "lowerChar c =
     (let n = (of_char c :: nat)
      in if (65 \<le> n \<and> n \<le> 90) \<or> (192 \<le> n \<and> n \<le> 222 \<and> n \<noteq> 215)
         then char_of (n + 32) else c)"

definition toLowerCase :: "string \<Rightarrow> string" where
  "toLowerCase s = map lowerChar s"

section \<open>The translator (an external collaborator)\<close>

text \<open>
  \<^verbatim>\<open>Translator = (messageTmpl: string | string[], ...keywords: Primitive[]) => string\<close>.
  The translator is a parameter of every function below.
\<close>

datatype Template = Tmpl string | TmplList "string list"

datatype Primitive = Str string | Num int

type_synonym Translator = "Template \<Rightarrow> Primitive list \<Rightarrow> string"

text \<open>A translator that returns its template untranslated (a list template joined);
  used where a concrete translator is needed.\<close>

definition echoTranslator :: Translator where
  "echoTranslator tmpl keywords = (case tmpl of Tmpl s \<Rightarrow> s | TmplList xs \<Rightarrow> concat xs)"

text \<open>The translator yields a non-empty phrase for every non-empty template.\<close>

definition nonEmptyPhrases :: "Translator \<Rightarrow> bool" where
  "nonEmptyPhrases t = (\<forall>s keywords. s \<noteq> [] \<longrightarrow> t (Tmpl s) keywords \<noteq> [])"

section \<open>Primitive value checkers\<close>

text \<open>
  Modelled from the spec: the module \<^verbatim>\<open>./primitive-check\<close> (intCheck, uintCheck,
  nonZeroUintCheck, floatCheck, range, splitUnit, numberCheckWithUnit) is imported by
  attr-check.ts and is not among the source files. Each checker below follows the
  sentence of the specification's section 4.1 quoted beside it. A sign is \<^verbatim>\<open>-\<close> or
  \<^verbatim>\<open>+\<close>; numeric values are exact rationals.
\<close>

definition isDigit :: "char \<Rightarrow> bool" where
  "isDigit c = (c \<in> set ''0123456789'')"

definition digitVal :: "char \<Rightarrow> nat" where
  "digitVal c = of_char c - 48"

definition digitsVal :: "string \<Rightarrow> nat" where
  "digitsVal ds = foldl (\<lambda>a c. 10 * a + digitVal c) 0 ds"

definition isSign :: "char \<Rightarrow> bool" where
  "isSign c = (c = CHR ''-'' \<or> c = CHR ''+'')"

text \<open>A string with its optional sign taken off: (negative, rest).\<close>

definition splitSign :: "string \<Rightarrow> bool \<times> string" where
  "splitSign s = (case s of [] \<Rightarrow> (False, [])
                  | c # cs \<Rightarrow> if isSign c then (c = CHR ''-'', cs) else (False, s))"

text \<open>Modelled from the spec: ``intCheck(s): true iff s parses as an optionally-signed
  base-10 integer with no extraneous characters.''\<close>

definition intCheck :: "string \<Rightarrow> bool" where
  "intCheck s = (let (neg, ds) = splitSign s in ds \<noteq> [] \<and> list_all isDigit ds)"

text \<open>The integer such a string denotes.\<close>

definition intValue :: "string \<Rightarrow> int" where
  "intValue s = (let (neg, ds) = splitSign s
                 in if neg then - int (digitsVal ds) else int (digitsVal ds))"

text \<open>Modelled from the spec: ``uintCheck(s): true iff integer and \<ge> 0.''\<close>

definition uintCheck :: "string \<Rightarrow> bool" where
  "uintCheck s = (intCheck s \<and> 0 \<le> intValue s)"

text \<open>Modelled from the spec: ``nonZeroUintCheck(s): true iff integer and > 0.''\<close>

definition nonZeroUintCheck :: "string \<Rightarrow> bool" where
  "nonZeroUintCheck s = (intCheck s \<and> 0 < intValue s)"

text \<open>
  Modelled from the spec: the numeric value of ``a base-10 floating point literal
  (optional sign, optional fractional part, optional exponent)''; \<open>None\<close> for a string
  that is no such literal (``unparseable input yields false'').
\<close>

definition numericValue :: "string \<Rightarrow> rat option" where
  "numericValue s =
     (let (neg, r) = splitSign s;
          ip = takeWhile isDigit r;
          r1 = dropWhile isDigit r;
          hasFrac = (r1 \<noteq> [] \<and> hd r1 = CHR ''.'');
          fp = (if hasFrac then takeWhile isDigit (tl r1) else []);
          r2 = (if hasFrac then dropWhile isDigit (tl r1) else r1);
          hasExp = (r2 \<noteq> [] \<and> (hd r2 = CHR ''e'' \<or> hd r2 = CHR ''E''));
          (eneg, er) = (if hasExp then splitSign (tl r2) else (False, []));
          mant = (of_nat (digitsVal (ip @ fp)) :: rat) / 10 ^ length fp;
          scaled = (if eneg then mant / 10 ^ digitsVal er else mant * 10 ^ digitsVal er);
          ok = (ip \<noteq> [] \<and> (if hasFrac then fp \<noteq> [] else True)
                \<and> (if hasExp then er \<noteq> [] \<and> list_all isDigit er else r2 = []))
      in if ok then Some (if neg then - scaled else scaled) else None)"

text \<open>Modelled from the spec: ``floatCheck(s): true iff parses as a base-10 floating
  point literal.''\<close>

definition floatCheck :: "string \<Rightarrow> bool" where
  "floatCheck s = (numericValue s \<noteq> None)"

text \<open>Modelled from the spec: ``range(value, min, max): true iff numeric value lies in
  [min, max] inclusive.'' It is \<open>range_check\<close> here, \<open>range\<close> being a constant of HOL.\<close>

definition range_check :: "string \<Rightarrow> rat \<Rightarrow> rat \<Rightarrow> bool" where
  "range_check v lo hi = (case numericValue v of None \<Rightarrow> False | Some q \<Rightarrow> lo \<le> q \<and> q \<le> hi)"

text \<open>Modelled from the spec: ``splitUnit(s): decomposes a string into { num, unit }
  where unit is the longest trailing non-numeric suffix.'' A character is numeric
  when it is a digit, a sign or the decimal point. The result is (num, unit).\<close>

definition isNumericChar :: "char \<Rightarrow> bool" where
  "isNumericChar c = (isDigit c \<or> isSign c \<or> c = CHR ''.'')"

definition splitUnit :: "string \<Rightarrow> string \<times> string" where
  "splitUnit s =
     (let unit = rev (takeWhile (\<lambda>c. \<not> isNumericChar c) (rev s))
      in (take (length s - length unit) s, unit))"

text \<open>Modelled from the spec: ``numberCheckWithUnit(s, allowedUnits): true iff s
  decomposes into a valid float/int and the unit is a member of allowedUnits.''\<close>

definition numberCheckWithUnit :: "string \<Rightarrow> string list \<Rightarrow> bool" where
  "numberCheckWithUnit s units =
     (let (num, unit) = splitUnit s in floatCheck num \<and> List.member units unit)"

section \<open>The attribute type dispatcher: attr-check.ts\<close>

text \<open>
  \<^verbatim>\<open>spec.type\<close> is either a type name (a string) or an object with an
  \<^verbatim>\<open>enum\<close> member; of an \<^verbatim>\<open>AttrSpec\<close> the dispatcher reads no other field.
\<close>

datatype AttributeType = Named string | Enum "string list"

record AttrSpec =
  type :: AttributeType

datatype InvalidType = NonExistent | InvalidValue

record Invalid =
  invalidType :: InvalidType
  message :: string

text \<open>\<^verbatim>\<open>t('the "{0}" {1}', name, 'attribute')\<close>, the phrase that attrCheck, valueCheck
  (as \<^verbatim>\<open>t_theNameAttribute\<close>) and includesEnum all build.\<close>

definition theNameAttribute :: "Translator \<Rightarrow> string \<Rightarrow> string" where
  \<open>theNameAttribute t name = t (Tmpl ''the "{0}" {1}'') [Str name, Str ''attribute'']\<close>

text \<open>The result \<^verbatim>\<open>string | false\<close> of includesEnum and valueCheck is a
  \<^typ>\<open>string option\<close>: \<open>None\<close> is \<^verbatim>\<open>false\<close>.\<close>

definition includesEnum :: "Translator \<Rightarrow> string \<Rightarrow> string \<Rightarrow> string list \<Rightarrow> string option" where
  "includesEnum t name value enumValues =
     (let valid = List.member enumValues (toLowerCase value)
      in if valid then None
         else Some (t (Tmpl ''{0} expects {1:c}'')
                [Str (theNameAttribute t name),
                 Str (t (Tmpl ''either {0}'') [Str (t (TmplList enumValues) [])])]))"

text \<open>
  \<^verbatim>\<open>parseInt(value)\<close> with no radix, a built-in of the language: leading white space
  is skipped, a sign is read, a \<^verbatim>\<open>0x\<close> prefix selects radix 16, and the longest
  prefix of digits is the number; \<open>None\<close> is NaN. The result is kept exact (the
  rounding of a double is monotone and fixes -1, so the comparisons with -1 below
  read the same).
\<close>

definition isHexDigit :: "char \<Rightarrow> bool" where
  "isHexDigit c = (isDigit c \<or> c \<in> set ''abcdefABCDEF'')"

definition hexDigitVal :: "char \<Rightarrow> nat" where
  "hexDigitVal c = (if isDigit c then digitVal c
                    else if c \<in> set ''abcdef'' then of_char c - 87 else of_char c - 55)"

definition parseInt :: "string \<Rightarrow> int option" where
  "parseInt s =
     (let (neg, s2) = splitSign (dropWhile isSpaceChar s);
          hex = (take 2 s2 = ''0x'' \<or> take 2 s2 = ''0X'');
          z = (if hex then takeWhile isHexDigit (drop 2 s2) else takeWhile isDigit s2);
          n = (if hex then foldl (\<lambda>a c. 16 * a + hexDigitVal c) 0 z else digitsVal z)
      in if z = [] then None else Some (if neg then - int n else int n))"

text \<open>The fixed lists of the ReferrerPolicy and CSSBlendMode branches.\<close>

definition referrerPolicies :: "string list" where
  "referrerPolicies =
     ['''', ''no-referrer'', ''no-referrer-when-downgrade'', ''same-origin'', ''origin'',
      ''strict-origin'', ''origin-when-cross-origin'', ''strict-origin-when-cross-origin'',
      ''unsafe-url'']"

definition blendModes :: "string list" where
  "blendModes =
     [''normal'', ''multiply'', ''screen'', ''overlay'', ''darken'', ''lighten'',
      ''color-dodge'', ''color-burn'', ''hard-light'', ''soft-light'', ''difference'',
      ''exclusion'', ''hue'', ''saturation'', ''color'', ''luminosity'']"

text \<open>The message of the ColSpan and RowSpan branches (they differ in the bound).\<close>

definition spanMessage :: "Translator \<Rightarrow> string \<Rightarrow> int \<Rightarrow> string" where
  "spanMessage t t_theNameAttribute bound =
     t (Tmpl ''{0} expects {1:c}'')
       [Str t_theNameAttribute,
        Str (t (Tmpl ''{0:c} and {1:c}'')
          [Str (t (Tmpl ''{0} greater than {1}'') [Str ''non-negative integer'', Str ''zero'']),
           Str (t (Tmpl ''less than or equal to {0}'') [Num bound])])]"

text \<open>The two messages of the TabIndex branch.\<close>

definition tabIndexBehavesMessage :: "Translator \<Rightarrow> string \<Rightarrow> string" where
  "tabIndexBehavesMessage t t_theNameAttribute =
     t (Tmpl ''{0} behaves the same as {1} if {2}'')
       [Str t_theNameAttribute, Str ''-1'', Str (t (Tmpl ''less than {0}'') [Str ''-1''])]"

definition tabIndexExpectsMessage :: "Translator \<Rightarrow> string \<Rightarrow> string" where
  "tabIndexExpectsMessage t t_theNameAttribute =
     t (Tmpl ''{0} expects {1:c}'')
       [Str t_theNameAttribute,
        Str (t (Tmpl ''either {0}'')
          [Str (t (TmplList [''-1'', ''zero'', ''non-negative integer'']) [])])]"

text \<open>The message of the CSSOpacity branch, for the bounds \<open>lo\<close> and \<open>hi\<close> as written.\<close>

definition opacityMessage :: "Translator \<Rightarrow> string \<Rightarrow> string \<Rightarrow> string \<Rightarrow> string" where
  "opacityMessage t t_theNameAttribute lo hi =
     t (Tmpl ''{0} expects {1:c}'')
       [Str t_theNameAttribute,
        Str (t (Tmpl ''{0} as {1}'')
          [Str (t (Tmpl ''{0} to {1}'') [Str lo, Str hi]), Str ''alpha channel value''])]"

text \<open>valueCheck, branch by branch in the order of the source.\<close>

definition valueCheck :: "Translator \<Rightarrow> string \<Rightarrow> string \<Rightarrow> AttrSpec \<Rightarrow> string option" where
  "valueCheck t name value spec =
     (case type spec of
        Enum enum \<Rightarrow> includesEnum t name value enum
      | Named ty \<Rightarrow>
       (let t_theNameAttribute = theNameAttribute t name
        in
        if ty = ''NonEmptyString'' \<and> value = '''' then
          Some (t (Tmpl ''{0} must not be {1}'')
            [Str (t (Tmpl ''{0} of {1}'')
               [Str (t (Tmpl ''the {0}'') [Str ''value'']), Str t_theNameAttribute]),
             Str ''empty string''])
        else if ty = ''Boolean'' then None
        else if ty = ''Function'' then None
        else if ty = ''Date'' then None
        else if ty = ''Int'' then
          (if intCheck value then None
           else Some (t (Tmpl ''{0} expects {1}'') [Str t_theNameAttribute, Str ''integer'']))
        else if ty = ''Uint'' then
          (if uintCheck value then None
           else Some (t (Tmpl ''{0} expects {1}'') [Str t_theNameAttribute, Str ''non-negative integer'']))
        else if ty = ''Float'' then
          (if floatCheck value then None
           else Some (t (Tmpl ''{0} expects {1}'') [Str t_theNameAttribute, Str ''floating-point number'']))
        else if ty = ''NonZeroUint'' then
          (if nonZeroUintCheck value then None
           else Some (t (Tmpl ''{0} expects {1}'')
                  [Str t_theNameAttribute,
                   Str (t (Tmpl ''{0} greater than {1}'') [Str ''floating-point number'', Str ''zero''])]))
        else if ty = ''ZeroToOne'' then
          (if range_check value 0 1 then None
           else Some (t (Tmpl ''{0} expects {1:c}'')
                  [Str t_theNameAttribute,
                   Str (t (Tmpl ''in the range between {0} and {1}'') [Str ''zero'', Str ''one''])]))
        else if ty = ''AcceptList'' then None
        else if ty = ''AutoComplete'' then None
        else if ty = ''BCP47'' then None
        else if ty = ''Color'' then None
        else if ty = ''ColSpan'' then
          (if intCheck value \<and> range_check value 0 1000 then None
           else Some (spanMessage t t_theNameAttribute 1000))
        else if ty = ''Coords'' then None
        else if ty = ''Crossorigin'' then None
        else if ty = ''DateTime'' then None
        else if ty = ''Destination'' then None
        else if ty = ''DOMID'' then None
        else if ty = ''DOMIDList'' then None
        else if ty = ''IRI'' then None
        else if ty = ''ItemType'' then None
        else if ty = ''LinkSizes'' then None
        else if ty = ''LinkType'' then None
        else if ty = ''LinkTypeList'' then None
        else if ty = ''MediaQuery'' then None
        else if ty = ''MediaQueryList'' then None
        else if ty = ''MIMEType'' then None
        else if ty = ''ReferrerPolicy'' then
          (includesEnum t name value referrerPolicies)
        else if ty = ''RowSpan'' then
          (if intCheck value \<and> range_check value 0 65534 then None
           else Some (spanMessage t t_theNameAttribute 65534))
        else if ty = ''SourceSizeList'' then None
        else if ty = ''SrcSet'' then None
        else if ty = ''TabIndex'' then
          (if intCheck value
           then (case parseInt value of
                   Some i \<Rightarrow>
                     if -1 \<le> i then None
                     else if -1 > i then Some (tabIndexBehavesMessage t t_theNameAttribute)
                     else Some (tabIndexExpectsMessage t t_theNameAttribute)
                 | None \<Rightarrow> Some (tabIndexExpectsMessage t t_theNameAttribute))
           else Some (tabIndexExpectsMessage t t_theNameAttribute))
        else if ty = ''Target'' then None
        else if ty = ''URL'' then None
        else if ty = ''URLHash'' then
          (if (case value of [] \<Rightarrow> False | c # cs \<Rightarrow> c = CHR ''#'') then None
           else Some (t (Tmpl ''{0} expects {1:c}'')
                  [Str t_theNameAttribute, Str (t (Tmpl ''valid {0}'') [Str ''hash-name reference''])]))
        else if ty = ''URLList'' then None
        else if ty = ''CSSAngle'' then
          (if numberCheckWithUnit value [''deg'', ''grad'', ''rad'', ''turn''] then None
           else Some (t (Tmpl ''{0} expects {1}'') [Str t_theNameAttribute, Str ''angle'']))
        else if ty = ''CSSBlendMode'' then
          (includesEnum t name value blendModes)
        else if ty = ''CSSClipPath'' then None
        else if ty = ''CSSCustomIdent'' then None
        else if ty = ''CSSDisplay'' then None
        else if ty = ''CSSFilter'' then None
        else if ty = ''CSSFontFamily'' then None
        else if ty = ''CSSFontSize'' then None
        else if ty = ''CSSFontVariant'' then None
        else if ty = ''CSSFontWeight'' then None
        else if ty = ''CSSMask'' then None
        else if ty = ''CSSOpacity'' then
          (let (num, unit) = splitUnit value
           in if unit = ''%''
              then (if range_check num 0 100 then None
                    else Some (opacityMessage t t_theNameAttribute ''0%'' ''100%''))
              else (if range_check num 0 1 then None
                    else Some (opacityMessage t t_theNameAttribute ''0'' ''1'')))
        else if ty = ''CSSTextDecoration'' then None
        else if ty = ''CSSTransformList'' then None
        else if ty = ''CSSTransformOrigin'' then None
        else if ty = ''CSSURL'' then None
        else if ty = ''SVGAnimatableValue'' then None
        else if ty = ''SVGBeginValueList'' then None
        else if ty = ''SVGClockValue'' then None
        else if ty = ''SVGColorMatrix'' then None
        else if ty = ''SVGDashArray'' then None
        else if ty = ''SVGEndValueList'' then None
        else if ty = ''SVGFilterPrimitiveReference'' then None
        else if ty = ''SVGKernelMatrix'' then None
        else if ty = ''SVGKeyPoints'' then None
        else if ty = ''SVGKeySplines'' then None
        else if ty = ''SVGKeyTimes'' then None
        else if ty = ''SVGLanguageTags'' then None
        else if ty = ''SVGLength'' then None
        else if ty = ''SVGLengthList'' then None
        else if ty = ''SVGNumberList'' then None
        else if ty = ''SVGNumberOptionalNumber'' then None
        else if ty = ''SVGOrigin'' then None
        else if ty = ''SVGPaint'' then None
        else if ty = ''SVGPathCommands'' then None
        else if ty = ''SVGPercentage'' then None
        else if ty = ''SVGPercentageList'' then None
        else if ty = ''SVGPoints'' then None
        else if ty = ''SVGPreserveAspectRatio'' then None
        else if ty = ''SVGViewBox'' then None
        else None))"

text \<open>
  attrCheck. The result \<^verbatim>\<open>Invalid | false\<close> is an \<^typ>\<open>Invalid option\<close>, \<open>None\<close> for
  \<^verbatim>\<open>false\<close>; an absent \<^verbatim>\<open>spec\<close> is \<open>None\<close>. The test \<^verbatim>\<open>if (invalid)\<close> on the
  string that valueCheck returns is false for the empty string as well.
\<close>

definition attrCheck ::
  "Translator \<Rightarrow> string \<Rightarrow> string \<Rightarrow> bool \<Rightarrow> AttrSpec option \<Rightarrow> Invalid option" where
  "attrCheck t name value isCustomRule spec =
     (if \<not> isCustomRule \<and> testDataAttr name then None
      else if \<not> isCustomRule \<and> testAriaOrRole name then None
      else
        (case spec of
           None \<Rightarrow>
             Some \<lparr>invalidType = NonExistent,
                   message = t (Tmpl ''{0} is {1}'') [Str (theNameAttribute t name), Str ''disallow'']\<rparr>
         | Some sp \<Rightarrow>
             (case valueCheck t name value sp of
                Some invalid \<Rightarrow>
                  if invalid \<noteq> [] then Some \<lparr>invalidType = InvalidValue, message = invalid\<rparr>
                  else None
              | None \<Rightarrow> None)))"

section \<open>The dispatcher with its exceptions and its untyped results\<close>

text \<open>
  A second reading of attr-check.ts, for what the first one settles by its types: which
  calls can end in an exception, and which JavaScript value a \<^verbatim>\<open>return\<close> hands back.
  A call completes with \<open>Some\<close> of its value or, thrown out of by an exception, with
  \<open>None\<close>; \<^verbatim>\<open>do\<close> runs the calls in the order in which the source evaluates them and
  stops at the first exception.
\<close>

type_synonym 'a completion = "'a option"

text \<open>The values a \<^verbatim>\<open>return\<close> of the module can hand back, and the ones the claim about
  its result excludes.\<close>

datatype jsval = JUndefined | JNull | JBool bool | JStr string | JObj "(string \<times> jsval) list"

text \<open>\<^verbatim>\<open>ToBoolean\<close>, the test of \<^verbatim>\<open>if (invalid)\<close>.\<close>

fun toBoolean :: "jsval \<Rightarrow> bool" where
  "toBoolean JUndefined = False"
| "toBoolean JNull = False"
| "toBoolean (JBool b) = b"
| "toBoolean (JStr s) = (s \<noteq> [])"
| "toBoolean (JObj members) = True"

text \<open>The collaborators, each of whose calls may throw: the translator and the seven
  functions of \<^verbatim>\<open>./primitive-check\<close>.\<close>

type_synonym ThrowingTranslator = "Template \<Rightarrow> Primitive list \<Rightarrow> string completion"

record PrimitiveCheck =
  callIntCheck :: "string \<Rightarrow> bool completion"
  callUintCheck :: "string \<Rightarrow> bool completion"
  callFloatCheck :: "string \<Rightarrow> bool completion"
  callNonZeroUintCheck :: "string \<Rightarrow> bool completion"
  callRange :: "string \<Rightarrow> rat \<Rightarrow> rat \<Rightarrow> bool completion"
  callSplitUnit :: "string \<Rightarrow> (string \<times> string) completion"
  callNumberCheckWithUnit :: "string \<Rightarrow> string list \<Rightarrow> bool completion"

definition translatorReturns :: "ThrowingTranslator \<Rightarrow> bool" where
  "translatorReturns tE = (\<forall>tmpl keywords. tE tmpl keywords \<noteq> None)"

definition checkersReturn :: "PrimitiveCheck \<Rightarrow> bool" where
  "checkersReturn pc =
     ((\<forall>s. callIntCheck pc s \<noteq> None) \<and> (\<forall>s. callUintCheck pc s \<noteq> None)
      \<and> (\<forall>s. callFloatCheck pc s \<noteq> None) \<and> (\<forall>s. callNonZeroUintCheck pc s \<noteq> None)
      \<and> (\<forall>s lo hi. callRange pc s lo hi \<noteq> None) \<and> (\<forall>s. callSplitUnit pc s \<noteq> None)
      \<and> (\<forall>s units. callNumberCheckWithUnit pc s units \<noteq> None))"

text \<open>The translator and the checkers of the first reading, as collaborators that never
  throw.\<close>

definition returning :: "Translator \<Rightarrow> ThrowingTranslator" where
  "returning t tmpl keywords = Some (t tmpl keywords)"

definition specCheckers :: PrimitiveCheck where
  "specCheckers =
     \<lparr>callIntCheck = (\<lambda>s. Some (intCheck s)),
      callUintCheck = (\<lambda>s. Some (uintCheck s)),
      callFloatCheck = (\<lambda>s. Some (floatCheck s)),
      callNonZeroUintCheck = (\<lambda>s. Some (nonZeroUintCheck s)),
      callRange = (\<lambda>s lo hi. Some (range_check s lo hi)),
      callSplitUnit = (\<lambda>s. Some (splitUnit s)),
      callNumberCheckWithUnit = (\<lambda>s units. Some (numberCheckWithUnit s units))\<rparr>"

text \<open>
  The operations of the language on \<^verbatim>\<open>spec.type\<close>: \<^verbatim>\<open>typeof x === 'string'\<close>; the
  operator \<^verbatim>\<open>key in x\<close>, a TypeError when \<open>x\<close> is not an object; and \<^verbatim>\<open>x.enum\<close>, undefined
  of a string, on which \<^verbatim>\<open>enumValues.includes\<close> would be a TypeError.
\<close>

definition typeofString :: "AttributeType \<Rightarrow> bool" where
  "typeofString x = (case x of Named s \<Rightarrow> True | Enum enum \<Rightarrow> False)"

definition inOperator :: "string \<Rightarrow> AttributeType \<Rightarrow> bool completion" where
  "inOperator key x = (case x of Named s \<Rightarrow> None | Enum enum \<Rightarrow> Some (key = ''enum''))"

definition enumMember :: "AttributeType \<Rightarrow> string list completion" where
  "enumMember x = (case x of Named s \<Rightarrow> None | Enum enum \<Rightarrow> Some enum)"

text \<open>\<^verbatim>\<open>return false\<close>, and \<^verbatim>\<open>return t(...)\<close> of a call that may throw.\<close>

definition returnFalse :: "jsval completion" where
  "returnFalse = Some (JBool False)"

definition returnString :: "string completion \<Rightarrow> jsval completion" where
  "returnString call = map_option JStr call"

definition theNameAttributeE :: "ThrowingTranslator \<Rightarrow> string \<Rightarrow> string completion" where
  \<open>theNameAttributeE tE name = tE (Tmpl ''the "{0}" {1}'') [Str name, Str ''attribute'']\<close>

definition includesEnumE ::
  "ThrowingTranslator \<Rightarrow> string \<Rightarrow> string \<Rightarrow> string list \<Rightarrow> jsval completion" where
  "includesEnumE tE name value enumValues =
     (let valid = List.member enumValues (toLowerCase value)
      in if valid then returnFalse
         else returnString (do {
           a \<leftarrow> theNameAttributeE tE name;
           l \<leftarrow> tE (TmplList enumValues) [];
           e \<leftarrow> tE (Tmpl ''either {0}'') [Str l];
           tE (Tmpl ''{0} expects {1:c}'') [Str a, Str e] }))"

definition spanMessageE :: "ThrowingTranslator \<Rightarrow> string \<Rightarrow> int \<Rightarrow> string completion" where
  "spanMessageE tE t_theNameAttribute bound = do {
     g \<leftarrow> tE (Tmpl ''{0} greater than {1}'') [Str ''non-negative integer'', Str ''zero''];
     l \<leftarrow> tE (Tmpl ''less than or equal to {0}'') [Num bound];
     c \<leftarrow> tE (Tmpl ''{0:c} and {1:c}'') [Str g, Str l];
     tE (Tmpl ''{0} expects {1:c}'') [Str t_theNameAttribute, Str c] }"

definition tabIndexBehavesMessageE :: "ThrowingTranslator \<Rightarrow> string \<Rightarrow> string completion" where
  "tabIndexBehavesMessageE tE t_theNameAttribute = do {
     l \<leftarrow> tE (Tmpl ''less than {0}'') [Str ''-1''];
     tE (Tmpl ''{0} behaves the same as {1} if {2}'') [Str t_theNameAttribute, Str ''-1'', Str l] }"

definition tabIndexExpectsMessageE :: "ThrowingTranslator \<Rightarrow> string \<Rightarrow> string completion" where
  "tabIndexExpectsMessageE tE t_theNameAttribute = do {
     l \<leftarrow> tE (TmplList [''-1'', ''zero'', ''non-negative integer'']) [];
     e \<leftarrow> tE (Tmpl ''either {0}'') [Str l];
     tE (Tmpl ''{0} expects {1:c}'') [Str t_theNameAttribute, Str e] }"

definition opacityMessageE ::
  "ThrowingTranslator \<Rightarrow> string \<Rightarrow> string \<Rightarrow> string \<Rightarrow> string completion" where
  "opacityMessageE tE t_theNameAttribute lo hi = do {
     r \<leftarrow> tE (Tmpl ''{0} to {1}'') [Str lo, Str hi];
     a \<leftarrow> tE (Tmpl ''{0} as {1}'') [Str r, Str ''alpha channel value''];
     tE (Tmpl ''{0} expects {1:c}'') [Str t_theNameAttribute, Str a] }"

text \<open>valueCheck again, branch by branch in the order of the source;
  \<^verbatim>\<open>spec.type === 'X'\<close> is \<open>type spec = Named ''X''\<close>, false of an object.\<close>

definition valueCheckE ::
  "PrimitiveCheck \<Rightarrow> ThrowingTranslator \<Rightarrow> string \<Rightarrow> string \<Rightarrow> AttrSpec \<Rightarrow> jsval completion" where
  "valueCheckE pc tE name value spec = do {
     hasEnum \<leftarrow> (if \<not> typeofString (type spec) then inOperator ''enum'' (type spec) else Some False);
     if hasEnum then do {
       enumValues \<leftarrow> enumMember (type spec);
       includesEnumE tE name value enumValues }
     else do {
       t_theNameAttribute \<leftarrow> theNameAttributeE tE name;
       if type spec = Named ''NonEmptyString'' \<and> value = '''' then
         returnString (do {
           v \<leftarrow> tE (Tmpl ''the {0}'') [Str ''value''];
           f \<leftarrow> tE (Tmpl ''{0} of {1}'') [Str v, Str t_theNameAttribute];
           tE (Tmpl ''{0} must not be {1}'') [Str f, Str ''empty string''] })
       else if type spec = Named ''Boolean'' then returnFalse
       else if type spec = Named ''Function'' then returnFalse
       else if type spec = Named ''Date'' then returnFalse
       else if type spec = Named ''Int'' then
         do {
            ok \<leftarrow> callIntCheck pc value;
            if ok then returnFalse
            else returnString (tE (Tmpl ''{0} expects {1}'') [Str t_theNameAttribute, Str ''integer'']) }
       else if type spec = Named ''Uint'' then
         do {
            ok \<leftarrow> callUintCheck pc value;
            if ok then returnFalse
            else returnString (tE (Tmpl ''{0} expects {1}'') [Str t_theNameAttribute, Str ''non-negative integer'']) }
       else if type spec = Named ''Float'' then
         do {
            ok \<leftarrow> callFloatCheck pc value;
            if ok then returnFalse
            else returnString (tE (Tmpl ''{0} expects {1}'') [Str t_theNameAttribute, Str ''floating-point number'']) }
       else if type spec = Named ''NonZeroUint'' then
         do {
            ok \<leftarrow> callNonZeroUintCheck pc value;
            if ok then returnFalse
            else returnString (do {
              g \<leftarrow> tE (Tmpl ''{0} greater than {1}'') [Str ''floating-point number'', Str ''zero''];
              tE (Tmpl ''{0} expects {1}'') [Str t_theNameAttribute, Str g] }) }
       else if type spec = Named ''ZeroToOne'' then
         do {
            ok \<leftarrow> callRange pc value 0 1;
            if ok then returnFalse
            else returnString (do {
              r \<leftarrow> tE (Tmpl ''in the range between {0} and {1}'') [Str ''zero'', Str ''one''];
              tE (Tmpl ''{0} expects {1:c}'') [Str t_theNameAttribute, Str r] }) }
       else if type spec = Named ''AcceptList'' then returnFalse
       else if type spec = Named ''AutoComplete'' then returnFalse
       else if type spec = Named ''BCP47'' then returnFalse
       else if type spec = Named ''Color'' then returnFalse
       else if type spec = Named ''ColSpan'' then
         do {
            isInt \<leftarrow> callIntCheck pc value;
            ok \<leftarrow> (if isInt then callRange pc value 0 1000 else Some False);
            if ok then returnFalse
            else returnString (spanMessageE tE t_theNameAttribute 1000) }
       else if type spec = Named ''Coords'' then returnFalse
       else if type spec = Named ''Crossorigin'' then returnFalse
       else if type spec = Named ''DateTime'' then returnFalse
       else if type spec = Named ''Destination'' then returnFalse
       else if type spec = Named ''DOMID'' then returnFalse
       else if type spec = Named ''DOMIDList'' then returnFalse
       else if type spec = Named ''IRI'' then returnFalse
       else if type spec = Named ''ItemType'' then returnFalse
       else if type spec = Named ''LinkSizes'' then returnFalse
       else if type spec = Named ''LinkType'' then returnFalse
       else if type spec = Named ''LinkTypeList'' then returnFalse
       else if type spec = Named ''MediaQuery'' then returnFalse
       else if type spec = Named ''MediaQueryList'' then returnFalse
       else if type spec = Named ''MIMEType'' then returnFalse
       else if type spec = Named ''ReferrerPolicy'' then
         includesEnumE tE name value referrerPolicies
       else if type spec = Named ''RowSpan'' then
         do {
            isInt \<leftarrow> callIntCheck pc value;
            ok \<leftarrow> (if isInt then callRange pc value 0 65534 else Some False);
            if ok then returnFalse
            else returnString (spanMessageE tE t_theNameAttribute 65534) }
       else if type spec = Named ''SourceSizeList'' then returnFalse
       else if type spec = Named ''SrcSet'' then returnFalse
       else if type spec = Named ''TabIndex'' then
         do {
            isInt \<leftarrow> callIntCheck pc value;
            if isInt
            then (case parseInt value of
                    Some i \<Rightarrow>
                      if -1 \<le> i then returnFalse
                      else if -1 > i then returnString (tabIndexBehavesMessageE tE t_theNameAttribute)
                      else returnString (tabIndexExpectsMessageE tE t_theNameAttribute)
                  | None \<Rightarrow> returnString (tabIndexExpectsMessageE tE t_theNameAttribute))
            else returnString (tabIndexExpectsMessageE tE t_theNameAttribute) }
       else if type spec = Named ''Target'' then returnFalse
       else if type spec = Named ''URL'' then returnFalse
       else if type spec = Named ''URLHash'' then
         (if (case value of [] \<Rightarrow> False | c # cs \<Rightarrow> c = CHR ''#'') then returnFalse
           else returnString (do {
             h \<leftarrow> tE (Tmpl ''valid {0}'') [Str ''hash-name reference''];
             tE (Tmpl ''{0} expects {1:c}'') [Str t_theNameAttribute, Str h] }))
       else if type spec = Named ''URLList'' then returnFalse
       else if type spec = Named ''CSSAngle'' then
         do {
            valid \<leftarrow> callNumberCheckWithUnit pc value [''deg'', ''grad'', ''rad'', ''turn''];
            if valid then returnFalse
            else returnString (tE (Tmpl ''{0} expects {1}'') [Str t_theNameAttribute, Str ''angle'']) }
       else if type spec = Named ''CSSBlendMode'' then
         includesEnumE tE name value blendModes
       else if type spec = Named ''CSSClipPath'' then returnFalse
       else if type spec = Named ''CSSCustomIdent'' then returnFalse
       else if type spec = Named ''CSSDisplay'' then returnFalse
       else if type spec = Named ''CSSFilter'' then returnFalse
       else if type spec = Named ''CSSFontFamily'' then returnFalse
       else if type spec = Named ''CSSFontSize'' then returnFalse
       else if type spec = Named ''CSSFontVariant'' then returnFalse
       else if type spec = Named ''CSSFontWeight'' then returnFalse
       else if type spec = Named ''CSSMask'' then returnFalse
       else if type spec = Named ''CSSOpacity'' then
         do {
            (num, unit) \<leftarrow> callSplitUnit pc value;
            if unit = ''%''
            then do {
              vaild \<leftarrow> callRange pc num 0 100;
              if vaild then returnFalse
              else returnString (opacityMessageE tE t_theNameAttribute ''0%'' ''100%'') }
            else do {
              vaild \<leftarrow> callRange pc num 0 1;
              if vaild then returnFalse
              else returnString (opacityMessageE tE t_theNameAttribute ''0'' ''1'') } }
       else if type spec = Named ''CSSTextDecoration'' then returnFalse
       else if type spec = Named ''CSSTransformList'' then returnFalse
       else if type spec = Named ''CSSTransformOrigin'' then returnFalse
       else if type spec = Named ''CSSURL'' then returnFalse
       else if type spec = Named ''SVGAnimatableValue'' then returnFalse
       else if type spec = Named ''SVGBeginValueList'' then returnFalse
       else if type spec = Named ''SVGClockValue'' then returnFalse
       else if type spec = Named ''SVGColorMatrix'' then returnFalse
       else if type spec = Named ''SVGDashArray'' then returnFalse
       else if type spec = Named ''SVGEndValueList'' then returnFalse
       else if type spec = Named ''SVGFilterPrimitiveReference'' then returnFalse
       else if type spec = Named ''SVGKernelMatrix'' then returnFalse
       else if type spec = Named ''SVGKeyPoints'' then returnFalse
       else if type spec = Named ''SVGKeySplines'' then returnFalse
       else if type spec = Named ''SVGKeyTimes'' then returnFalse
       else if type spec = Named ''SVGLanguageTags'' then returnFalse
       else if type spec = Named ''SVGLength'' then returnFalse
       else if type spec = Named ''SVGLengthList'' then returnFalse
       else if type spec = Named ''SVGNumberList'' then returnFalse
       else if type spec = Named ''SVGNumberOptionalNumber'' then returnFalse
       else if type spec = Named ''SVGOrigin'' then returnFalse
       else if type spec = Named ''SVGPaint'' then returnFalse
       else if type spec = Named ''SVGPathCommands'' then returnFalse
       else if type spec = Named ''SVGPercentage'' then returnFalse
       else if type spec = Named ''SVGPercentageList'' then returnFalse
       else if type spec = Named ''SVGPoints'' then returnFalse
       else if type spec = Named ''SVGPreserveAspectRatio'' then returnFalse
       else if type spec = Named ''SVGViewBox'' then returnFalse
       else returnFalse } }"

text \<open>attrCheck again. The record it returns is an object with the members
  \<^verbatim>\<open>invalidType\<close> and \<^verbatim>\<open>message\<close>; the message of an 'invalid-value' record is whatever
  valueCheck returned.\<close>

definition attrCheckE ::
  "PrimitiveCheck \<Rightarrow> ThrowingTranslator \<Rightarrow> string \<Rightarrow> string \<Rightarrow> bool \<Rightarrow> AttrSpec option
     \<Rightarrow> jsval completion" where
  "attrCheckE pc tE name value isCustomRule spec =
     (if \<not> isCustomRule \<and> testDataAttr name then returnFalse
      else if \<not> isCustomRule \<and> testAriaOrRole name then returnFalse
      else
        (case spec of
           None \<Rightarrow> do {
             a \<leftarrow> theNameAttributeE tE name;
             m \<leftarrow> tE (Tmpl ''{0} is {1}'') [Str a, Str ''disallow''];
             Some (JObj [(''invalidType'', JStr ''non-existent''), (''message'', JStr m)]) }
         | Some sp \<Rightarrow> do {
             invalid \<leftarrow> valueCheckE pc tE name value sp;
             if toBoolean invalid
             then Some (JObj [(''invalidType'', JStr ''invalid-value''), (''message'', invalid)])
             else returnFalse }))"

text \<open>The value that the second reading returns for a result of the first.\<close>

definition jsOfString :: "string option \<Rightarrow> jsval" where
  "jsOfString r = (case r of None \<Rightarrow> JBool False | Some m \<Rightarrow> JStr m)"

definition invalidTypeName :: "InvalidType \<Rightarrow> string" where
  "invalidTypeName ty = (case ty of NonExistent \<Rightarrow> ''non-existent'' | InvalidValue \<Rightarrow> ''invalid-value'')"

definition jsOfInvalid :: "Invalid option \<Rightarrow> jsval" where
  "jsOfInvalid r =
     (case r of
        None \<Rightarrow> JBool False
      | Some i \<Rightarrow> JObj [(''invalidType'', JStr (invalidTypeName (invalidType i))),
                        (''message'', JStr (Invalid.message i))])"

text \<open>What the signature of valueCheck names: \<^verbatim>\<open>false\<close> or a string.\<close>

fun falseOrString :: "jsval \<Rightarrow> bool" where
  "falseOrString (JBool b) = (\<not> b)"
| "falseOrString (JStr m) = True"
| "falseOrString v = False"

text \<open>A translator that throws on every call.\<close>

definition throwingTranslator :: ThrowingTranslator where
  "throwingTranslator tmpl keywords = None"

section \<open>The documents the rules walk (external collaborators)\<close>

text \<open>
  A rule sees an element through the accessors of the document model:
  \<^verbatim>\<open>el.rule.value\<close>, \<^verbatim>\<open>el.rule.option\<close>, \<^verbatim>\<open>el.ownerMLDocument.specs\<close>,
  \<^verbatim>\<open>el.getAttribute(name)\<close> (\<open>None\<close> is \<^verbatim>\<open>null\<close>), \<^verbatim>\<open>el.getAttributeToken(name)\<close>
  and \<^verbatim>\<open>el.childNodes\<close>. Of a child node a rule reads \<^verbatim>\<open>node.is(node.TEXT_NODE)\<close>
  and \<^verbatim>\<open>node.isWhitespace()\<close>. Of an attribute token it reads \<^verbatim>\<open>isDynamicValue\<close>,
  \<^verbatim>\<open>value\<close> (here \<open>tokenValue\<close>) and \<^verbatim>\<open>valueNode\<close> with its \<^verbatim>\<open>startLine\<close>,
  \<^verbatim>\<open>startCol\<close> and \<^verbatim>\<open>raw\<close> (here \<open>nodeRaw\<close>).
\<close>

record ValueNode =
  startLine :: nat
  startCol :: nat
  nodeRaw :: string

record AttributeToken =
  isDynamicValue :: bool
  tokenValue :: string
  valueNode :: "ValueNode option"

record Node =
  isTextNode :: bool
  isWhitespace :: bool

record ('v, 'o, 'sp) Element =
  ruleValue :: 'v
  ruleOption :: 'o
  specs :: 'sp
  getAttribute :: "string \<Rightarrow> string option"
  getAttributeToken :: "string \<Rightarrow> AttributeToken list"
  childNodes :: "Node list"

text \<open>The argument of \<^verbatim>\<open>report\<close>; an optional member left out is \<open>None\<close>. The reports
  of a run are the list of the calls of \<^verbatim>\<open>report\<close>, in the order they are made.\<close>

record 's Report =
  scope :: 's
  message :: string
  line :: "nat option"
  col :: "nat option"
  raw :: "string option"

section \<open>The class-naming rule\<close>

text \<open>\<^verbatim>\<open>Value = string | string[] | null\<close>\<close>

datatype Value = VNull | VString string | VArray "string list"

text \<open>\<^verbatim>\<open>!el.rule.value\<close>: null and the empty string are falsy, every array is truthy.\<close>

definition falsyValue :: "Value \<Rightarrow> bool" where
  "falsyValue v = (case v of VNull \<Rightarrow> True | VString s \<Rightarrow> s = [] | VArray xs \<Rightarrow> False)"

text \<open>\<^verbatim>\<open>s.split(/\s+/g)\<close>: the pieces between the maximal runs of white space; a run at
  either end leaves an empty piece there, and the empty string gives one empty piece.
  (The result is never the empty list; the case for it below is there for completeness.)\<close>

function splitSpaces :: "string \<Rightarrow> string list" where
  "splitSpaces [] = [[]]"
| "splitSpaces (c # cs) =
     (if isSpaceChar c then [] # splitSpaces (dropWhile isSpaceChar cs)
      else (case splitSpaces cs of p # ps \<Rightarrow> (c # p) # ps | [] \<Rightarrow> [[c]]))"
  by pat_completeness auto
termination
  by (relation "measure length") (auto simp: length_dropWhile_le less_Suc_eq_le)

text \<open>\<^verbatim>\<open>String.prototype.trim\<close>\<close>

definition trim :: "string \<Rightarrow> string" where
  "trim s = rev (dropWhile isSpaceChar (rev (dropWhile isSpaceChar s)))"

text \<open>\<^verbatim>\<open>xs.join(sep)\<close>\<close>

fun join :: "string \<Rightarrow> string list \<Rightarrow> string" where
  "join sep [] = []"
| "join sep [x] = x"
| "join sep (x # y # ys) = x @ sep @ join sep (y # ys)"

text \<open>
  The callback of \<^verbatim>\<open>document.walkOn('Element', ...)\<close> in the class-naming rule, as
  the list of its reports. \<open>match\<close> (of \<^verbatim>\<open>../helpers\<close>) and
  \<open>toNoEmptyStringArrayFromStringOrArray\<close> (of \<^verbatim>\<open>@markuplint/shared\<close>) are
  parameters.
\<close>

definition classNameReport ::
  "Translator \<Rightarrow> string list \<Rightarrow> AttributeToken \<Rightarrow> string \<Rightarrow> AttributeToken Report" where
  \<open>classNameReport t classPatterns attr className =
     (let classAttr = valueNode attr
      in \<lparr>scope = attr,
          message = t (Tmpl ''{0} is unmatched with the below patterns: {1}'')
            [Str (t (Tmpl ''the "{0*}" {1}'') [Str className, Str ''class name'']),
             Str ([CHR 0x22] @ join ''", "'' classPatterns @ [CHR 0x22])],
          line = map_option startLine classAttr,
          col = map_option startCol classAttr,
          raw = map_option nodeRaw classAttr\<rparr>)\<close>

definition classNameOnElement ::
  "(string \<Rightarrow> string \<Rightarrow> bool) \<Rightarrow> (Value \<Rightarrow> string list) \<Rightarrow> Translator
     \<Rightarrow> (Value, 'o, 'sp) Element \<Rightarrow> AttributeToken Report list" where
  "classNameOnElement match toNoEmptyStringArrayFromStringOrArray t el =
     (if falsyValue (ruleValue el) then []
      else
        (let classPatterns =
               filter (\<lambda>className. className \<noteq> [])
                 (toNoEmptyStringArrayFromStringOrArray (ruleValue el));
             attrs = getAttributeToken el ''class''
         in concat (map (\<lambda>attr.
              if isDynamicValue attr then []
              else
                (let classList = filter (\<lambda>c. c \<noteq> []) (map trim (splitSpaces (tokenValue attr)))
                 in concat (map (\<lambda>className.
                      if \<not> list_ex (\<lambda>pattern. match className pattern) classPatterns
                      then [classNameReport t classPatterns attr className]
                      else []) classList))) attrs)))"

text \<open>\<^verbatim>\<open>verify\<close> of the class-naming rule: \<^verbatim>\<open>walkOn\<close> calls the callback once for
  each element, in document order; the document is the list of its elements in that
  order.\<close>

definition classNameVerify ::
  "(string \<Rightarrow> string \<Rightarrow> bool) \<Rightarrow> (Value \<Rightarrow> string list) \<Rightarrow> Translator
     \<Rightarrow> (Value, 'o, 'sp) Element list \<Rightarrow> AttributeToken Report list" where
  "classNameVerify match toNoEmptyStringArrayFromStringOrArray t document =
     concat (map (classNameOnElement match toNoEmptyStringArrayFromStringOrArray t) document)"

section \<open>The palpable-content rule\<close>

text \<open>\<^verbatim>\<open>Options\<close>: both members are optional; \<open>None\<close> is a member left undefined.\<close>

record Options =
  extendsExposableElements :: "bool option"
  ignoreIfAriaBusy :: "bool option"

text \<open>
  The callback of \<^verbatim>\<open>document.walkOn('Element', ...)\<close> in the palpable-content rule.
  \<open>isPalpableElement\<close> and \<open>isVoidElement\<close> (of \<^verbatim>\<open>@markuplint/ml-spec\<close>) are
  parameters; the third and fourth argument of \<open>isPalpableElement\<close> are the members
  \<^verbatim>\<open>extendsSvg\<close> and \<^verbatim>\<open>extendsExposableElements\<close> of its option object.
\<close>

definition emptyReport :: "Translator \<Rightarrow> 'e \<Rightarrow> 'e Report" where
  "emptyReport t el =
     \<lparr>scope = el,
      message = t (Tmpl ''{0} should not {1}'') [Str (t (Tmpl ''the {0}'') [Str ''element'']), Str ''empty''],
      line = None, col = None, raw = None\<rparr>"

definition palpableOnElement ::
  "(('v, Options, 'sp) Element \<Rightarrow> 'sp \<Rightarrow> bool \<Rightarrow> bool option \<Rightarrow> bool)
     \<Rightarrow> (('v, Options, 'sp) Element \<Rightarrow> bool) \<Rightarrow> Translator
     \<Rightarrow> ('v, Options, 'sp) Element \<Rightarrow> ('v, Options, 'sp) Element Report list" where
  "palpableOnElement isPalpableElement isVoidElement t el =
     (if \<not> isPalpableElement el (specs el) False (extendsExposableElements (ruleOption el)) then []
      else if isVoidElement el then []
      else if ignoreIfAriaBusy (ruleOption el) = Some True \<and> getAttribute el ''aria-busy'' = Some ''true''
      then []
      else
        (let isEmpty = list_all (\<lambda>node. isTextNode node \<and> isWhitespace node) (childNodes el)
         in if isEmpty then [emptyReport t el] else []))"

definition palpableVerify ::
  "(('v, Options, 'sp) Element \<Rightarrow> 'sp \<Rightarrow> bool \<Rightarrow> bool option \<Rightarrow> bool)
     \<Rightarrow> (('v, Options, 'sp) Element \<Rightarrow> bool) \<Rightarrow> Translator
     \<Rightarrow> ('v, Options, 'sp) Element list \<Rightarrow> ('v, Options, 'sp) Element Report list" where
  "palpableVerify isPalpableElement isVoidElement t document =
     concat (map (palpableOnElement isPalpableElement isVoidElement t) document)"

section \<open>Names for the branches of valueCheck, and sample inputs\<close>

text \<open>The type names whose branch of valueCheck can return a message.\<close>

definition checkedTypes :: "string list" where
  "checkedTypes =
     [''NonEmptyString'', ''Int'', ''Uint'', ''Float'', ''NonZeroUint'', ''ZeroToOne'',
      ''ColSpan'', ''ReferrerPolicy'', ''RowSpan'', ''TabIndex'', ''URLHash'',
      ''CSSAngle'', ''CSSBlendMode'', ''CSSOpacity'']"

text \<open>The type names whose branch of valueCheck is a bare \<^verbatim>\<open>return false\<close> (marked
  TODO in the source, but for Boolean), in the order of the source.\<close>

definition todoTypes :: "string list" where
  "todoTypes =
     [''Boolean'', ''Function'', ''Date'', ''AcceptList'', ''AutoComplete'', ''BCP47'',
      ''Color'', ''Coords'', ''Crossorigin'', ''DateTime'', ''Destination'', ''DOMID'',
      ''DOMIDList'', ''IRI'', ''ItemType'', ''LinkSizes'', ''LinkType'',
      ''LinkTypeList'', ''MediaQuery'', ''MediaQueryList'', ''MIMEType'',
      ''SourceSizeList'', ''SrcSet'', ''Target'', ''URL'', ''URLList'', ''CSSClipPath'',
      ''CSSCustomIdent'', ''CSSDisplay'', ''CSSFilter'', ''CSSFontFamily'',
      ''CSSFontSize'', ''CSSFontVariant'', ''CSSFontWeight'', ''CSSMask'',
      ''CSSTextDecoration'', ''CSSTransformList'', ''CSSTransformOrigin'', ''CSSURL'',
      ''SVGAnimatableValue'', ''SVGBeginValueList'', ''SVGClockValue'',
      ''SVGColorMatrix'', ''SVGDashArray'', ''SVGEndValueList'',
      ''SVGFilterPrimitiveReference'', ''SVGKernelMatrix'', ''SVGKeyPoints'',
      ''SVGKeySplines'', ''SVGKeyTimes'', ''SVGLanguageTags'', ''SVGLength'',
      ''SVGLengthList'', ''SVGNumberList'', ''SVGNumberOptionalNumber'', ''SVGOrigin'',
      ''SVGPaint'', ''SVGPathCommands'', ''SVGPercentage'', ''SVGPercentageList'',
      ''SVGPoints'', ''SVGPreserveAspectRatio'', ''SVGViewBox'']"

text \<open>The name exemption of attrCheck: the two tests it makes when the rule is not a
  custom rule.\<close>

definition exemptName :: "bool \<Rightarrow> string \<Rightarrow> bool" where
  "exemptName isCustomRule name = (\<not> isCustomRule \<and> (testDataAttr name \<or> testAriaOrRole name))"

text \<open>A \<^verbatim>\<open>class\<close> attribute written twice, once with a dynamic value, on an element
  whose rule allows the class names \<open>good\<close> and \<open>fine\<close>.\<close>

definition sampleDynamicToken :: AttributeToken where
  "sampleDynamicToken = \<lparr>isDynamicValue = True, tokenValue = ''bad'', valueNode = None\<rparr>"

definition sampleStaticToken :: AttributeToken where
  "sampleStaticToken =
     \<lparr>isDynamicValue = False, tokenValue = ''good  bad'',
      valueNode = Some \<lparr>startLine = 1, startCol = 2, nodeRaw = ''good  bad''\<rparr>\<rparr>"

definition sampleClassElement :: "(Value, unit, unit) Element" where
  "sampleClassElement =
     \<lparr>ruleValue = VArray [''good'', ''fine''], ruleOption = (), specs = (),
      getAttribute = (\<lambda>n. None),
      getAttributeToken = (\<lambda>n. if n = ''class'' then [sampleDynamicToken, sampleStaticToken] else []),
      childNodes = []\<rparr>"

definition sampleToArray :: "Value \<Rightarrow> string list" where
  "sampleToArray v = (case v of VNull \<Rightarrow> [] | VString s \<Rightarrow> [s] | VArray xs \<Rightarrow> xs)"

text \<open>An element with no child node and no attribute, under the default options.\<close>

definition sampleEmptyElement :: "(unit, Options, unit) Element" where
  "sampleEmptyElement =
     \<lparr>ruleValue = (),
      ruleOption = \<lparr>extendsExposableElements = Some True, ignoreIfAriaBusy = Some True\<rparr>,
      specs = (),
      getAttribute = (\<lambda>n. None),
      getAttributeToken = (\<lambda>n. []),
      childNodes = []\<rparr>"

section \<open>Facts about the name patterns and the dispatcher\<close>

lemma attrCheck_not_exempt:
  "\<not> exemptName isCustomRule name \<Longrightarrow>
   attrCheck t name v isCustomRule spec =
     (case spec of
        None \<Rightarrow>
          Some \<lparr>invalidType = NonExistent,
                message = t (Tmpl ''{0} is {1}'') [Str (theNameAttribute t name), Str ''disallow'']\<rparr>
      | Some sp \<Rightarrow>
          (case valueCheck t name v sp of
             Some invalid \<Rightarrow>
               if invalid \<noteq> [] then Some \<lparr>invalidType = InvalidValue, message = invalid\<rparr> else None
           | None \<Rightarrow> None))"
  by (auto simp: attrCheck_def exemptName_def)

lemma sample_names_not_exempt:
  "\<not> exemptName False ''href''" "\<not> exemptName False ''colspan''"
  "\<not> exemptName False ''tabindex''" "\<not> exemptName False ''data-''"
  by (simp_all add: exemptName_def testDataAttr_def testAriaOrRole_def dotPlusEnd_def)

lemma echo_nonEmptyPhrases: "nonEmptyPhrases echoTranslator"
  by (simp add: nonEmptyPhrases_def echoTranslator_def)

text \<open>
  C1. Unless the name is exempt (it matches the data-* or the ARIA/role pattern and the
  rule is not a custom rule), attrCheck returns an Invalid record of type 'non-existent'
  if and only if no spec is supplied; and for every name, a returned record of type
  'non-existent' means that no spec was supplied.
\<close>

theorem attrCheck_non_existent_iff_no_spec:
  "(isCustomRule \<or> \<not> (testDataAttr name \<or> testAriaOrRole name) \<longrightarrow>
      ((\<exists>m. attrCheck t name v isCustomRule spec = Some \<lparr>invalidType = NonExistent, message = m\<rparr>)
        \<longleftrightarrow> spec = None))
   \<and> (\<forall>r. attrCheck t name v isCustomRule spec = Some r \<and> invalidType r = NonExistent
          \<longrightarrow> spec = None)"
  by (auto simp: attrCheck_def split: option.splits if_splits)

theorem attrCheck_non_existent_iff_no_spec_witness:
  "\<not> (testDataAttr ''href'' \<or> testAriaOrRole ''href'')
   \<and> (\<exists>m. attrCheck echoTranslator ''href'' ''x'' False None
            = Some \<lparr>invalidType = NonExistent, message = m\<rparr>)
   \<and> \<not> (\<exists>m. attrCheck echoTranslator ''href'' ''x'' False (Some \<lparr>type = Named ''URL''\<rparr>)
            = Some \<lparr>invalidType = NonExistent, message = m\<rparr>)"
proof -
  have n: "\<not> (testDataAttr ''href'' \<or> testAriaOrRole ''href'')"
    by (simp add: testDataAttr_def testAriaOrRole_def)
  from n attrCheck_non_existent_iff_no_spec [of False "''href''" echoTranslator "''x''" None]
  have a: "\<exists>m. attrCheck echoTranslator ''href'' ''x'' False None
            = Some \<lparr>invalidType = NonExistent, message = m\<rparr>"
    by simp
  from n attrCheck_non_existent_iff_no_spec
    [of False "''href''" echoTranslator "''x''" "Some \<lparr>type = Named ''URL''\<rparr>"]
  have b: "\<not> (\<exists>m. attrCheck echoTranslator ''href'' ''x'' False (Some \<lparr>type = Named ''URL''\<rparr>)
            = Some \<lparr>invalidType = NonExistent, message = m\<rparr>)"
    by simp
  from n a b show ?thesis by blast
qed

text \<open>
  C2. When the rule is not a custom rule, attrCheck returns false (here \<open>None\<close>) for every
  name that matches the data-* pattern or the ARIA/role pattern, whatever the value and
  the spec, an absent spec included.
\<close>

theorem attrCheck_exempt_names_valid:
  "testDataAttr name \<or> testAriaOrRole name \<Longrightarrow> attrCheck t name v False spec = None"
  by (auto simp: attrCheck_def)

theorem attrCheck_exempt_names_valid_witness:
  "testDataAttr ''data-id'' \<and> attrCheck echoTranslator ''data-id'' ''1'' False None = None
   \<and> testAriaOrRole ''role''
   \<and> attrCheck echoTranslator ''role'' ''x'' False (Some \<lparr>type = Named ''Int''\<rparr>) = None"
proof -
  have d: "testDataAttr ''data-id''"
    by (simp add: testDataAttr_def dotPlusEnd_def isLineTerminator_def)
  have r: "testAriaOrRole ''role''"
    by (simp add: testAriaOrRole_def)
  from d have "attrCheck echoTranslator ''data-id'' ''1'' False None = None"
    by (intro attrCheck_exempt_names_valid) simp
  moreover from r have
    "attrCheck echoTranslator ''role'' ''x'' False (Some \<lparr>type = Named ''Int''\<rparr>) = None"
    by (intro attrCheck_exempt_names_valid) simp
  ultimately show ?thesis using d r by simp
qed

text \<open>
  C9. The name \<open>data-\<close>, with nothing after the hyphen, does not match the data-* pattern,
  which asks for at least one more character; so with no spec and outside a custom rule
  attrCheck returns the 'non-existent' record for it and not false.
\<close>

theorem attrCheck_bare_data_prefix_not_exempt:
  "\<not> testDataAttr ''data-''
   \<and> attrCheck t ''data-'' v False None =
       Some \<lparr>invalidType = NonExistent,
             message = t (Tmpl ''{0} is {1}'') [Str (theNameAttribute t ''data-''), Str ''disallow'']\<rparr>
   \<and> attrCheck t ''data-'' v False None \<noteq> None"
  by (simp add: attrCheck_def testDataAttr_def testAriaOrRole_def dotPlusEnd_def)

theorem attrCheck_bare_data_prefix_not_exempt_witness:
  "attrCheck echoTranslator ''data-'' ''1'' False None
     = Some \<lparr>invalidType = NonExistent, message = ''{0} is {1}''\<rparr>"
  using attrCheck_bare_data_prefix_not_exempt [of echoTranslator "''1''"]
  by (simp add: echoTranslator_def)

section \<open>Types without a checker\<close>

lemma todoTypes_unchecked: "ty \<in> set todoTypes \<Longrightarrow> ty \<notin> set checkedTypes"
  by (auto simp: todoTypes_def checkedTypes_def)

lemma valueCheck_unchecked:
  assumes "type sp = Named ty" and "ty \<notin> set checkedTypes"
  shows "valueCheck t name v sp = None"
  using assms by (simp add: valueCheck_def checkedTypes_def Let_def)

text \<open>
  C4. For a spec whose type is one of the names with a bare \<^verbatim>\<open>return false\<close> branch
  (Boolean, Function, Date, AcceptList, AutoComplete, BCP47, Color, Coords, Crossorigin,
  DateTime, URL and the other CSS and SVG names of \<open>todoTypes\<close>), and for a type name that
  no branch handles, valueCheck returns false and so attrCheck returns false (valid),
  whatever the value.
\<close>

theorem attrCheck_unimplemented_types_valid:
  assumes "type sp = Named ty" and "ty \<in> set todoTypes \<or> ty \<notin> set checkedTypes"
  shows "valueCheck t name v sp = None \<and> attrCheck t name v isCustomRule (Some sp) = None"
proof -
  from assms(2) have "ty \<notin> set checkedTypes"
    using todoTypes_unchecked by blast
  with assms(1) have "valueCheck t name v sp = None"
    by (rule valueCheck_unchecked)
  then show ?thesis
    by (simp add: attrCheck_def)
qed

theorem attrCheck_unimplemented_types_valid_witness:
  "''Boolean'' \<in> set todoTypes
   \<and> attrCheck echoTranslator ''hidden'' ''until-found'' False (Some \<lparr>type = Named ''Boolean''\<rparr>) = None
   \<and> ''FutureType'' \<notin> set checkedTypes
   \<and> attrCheck echoTranslator ''part'' ''a b'' True (Some \<lparr>type = Named ''FutureType''\<rparr>) = None"
proof -
  have a: "''Boolean'' \<in> set todoTypes"
    by (simp add: todoTypes_def)
  have b: "''FutureType'' \<notin> set checkedTypes"
    by (simp add: checkedTypes_def)
  have "attrCheck echoTranslator ''hidden'' ''until-found'' False (Some \<lparr>type = Named ''Boolean''\<rparr>) = None"
    using attrCheck_unimplemented_types_valid [of "\<lparr>type = Named ''Boolean''\<rparr>" "''Boolean''"] a
    by simp
  moreover have
    "attrCheck echoTranslator ''part'' ''a b'' True (Some \<lparr>type = Named ''FutureType''\<rparr>) = None"
    using attrCheck_unimplemented_types_valid [of "\<lparr>type = Named ''FutureType''\<rparr>" "''FutureType''"] b
    by simp
  ultimately show ?thesis using a b by simp
qed

section \<open>Integers as strings\<close>

lemma digit_not_space: "isDigit c \<Longrightarrow> \<not> isSpaceChar c"
  by (auto simp: isDigit_def isSpaceChar_def)

lemma sign_not_space: "isSign c \<Longrightarrow> \<not> isSpaceChar c"
  by (auto simp: isSign_def isSpaceChar_def)

lemma takeWhile_all_digits: "list_all isDigit ds \<Longrightarrow> takeWhile isDigit ds = ds"
  by (simp add: list_all_iff)

lemma dropWhile_all_digits: "list_all isDigit ds \<Longrightarrow> dropWhile isDigit ds = []"
  by (simp add: list_all_iff)

lemma digits_no_hex_prefix:
  "list_all isDigit ds \<Longrightarrow> take 2 ds \<noteq> ''0x'' \<and> take 2 ds \<noteq> ''0X''"
  by (cases ds; cases "tl ds") (auto simp: isDigit_def)

lemma intCheck_no_leading_space: "intCheck s \<Longrightarrow> dropWhile isSpaceChar s = s"
  by (cases s) (auto simp: intCheck_def splitSign_def sign_not_space digit_not_space split: if_splits)

lemma digitsVal_Nil: "digitsVal [] = 0"
  by (simp add: digitsVal_def)

text \<open>On a string that passes intCheck, parseInt returns the integer the string denotes.\<close>

lemma intCheck_parseInt:
  assumes "intCheck s"
  shows "parseInt s = Some (intValue s)"
proof -
  obtain neg ds where sp: "splitSign s = (neg, ds)"
    by (cases "splitSign s")
  with assms have ds: "ds \<noteq> []" "list_all isDigit ds"
    by (auto simp: intCheck_def)
  show ?thesis
    using sp ds intCheck_no_leading_space [OF assms] digits_no_hex_prefix [OF ds(2)]
    by (simp add: parseInt_def intValue_def takeWhile_all_digits)
qed

text \<open>And its numeric value is that integer.\<close>

lemma intCheck_numericValue:
  assumes "intCheck s"
  shows "numericValue s = Some (of_int (intValue s))"
proof -
  obtain neg ds where sp: "splitSign s = (neg, ds)"
    by (cases "splitSign s")
  with assms have ds: "ds \<noteq> []" "list_all isDigit ds"
    by (auto simp: intCheck_def)
  show ?thesis
    using sp ds
    by (simp add: numericValue_def intValue_def takeWhile_all_digits dropWhile_all_digits
        Let_def digitsVal_Nil list_all_iff)
qed

lemma intCheck_range:
  "intCheck s \<Longrightarrow> range_check s (of_int lo) (of_int hi) = (lo \<le> intValue s \<and> intValue s \<le> hi)"
  by (simp add: range_check_def intCheck_numericValue)

lemmas eval_digits = intCheck_def intValue_def splitSign_def isSign_def isDigit_def
  digitsVal_def digitVal_def

section \<open>ColSpan\<close>

lemma valueCheck_ColSpan:
  "type sp = Named ''ColSpan'' \<Longrightarrow>
   valueCheck t name v sp =
     (if intCheck v \<and> range_check v 0 1000 then None
      else Some (spanMessage t (theNameAttribute t name) 1000))"
  by (simp add: valueCheck_def Let_def)

lemma spanMessage_nonempty: "nonEmptyPhrases t \<Longrightarrow> spanMessage t a b \<noteq> []"
  by (simp add: spanMessage_def nonEmptyPhrases_def)

text \<open>
  C7. For a spec of type ColSpan, the value is accepted if and only if it is an integer
  (intCheck) whose value lies in [0, 1000]: valueCheck returns false exactly then, and so
  does attrCheck for a name that is not exempt, given a translator whose phrases are not
  empty (attrCheck reads an empty message as false). "1000" and "0" are valid, "1001"
  and "-1" are not, as the second theorem evaluates.
\<close>

theorem colSpan_valid_iff:
  assumes "type sp = Named ''ColSpan''"
  shows "(valueCheck t name v sp = None \<longleftrightarrow> intCheck v \<and> 0 \<le> intValue v \<and> intValue v \<le> 1000)
    \<and> (\<not> exemptName isCustomRule name \<and> nonEmptyPhrases t \<longrightarrow>
         (attrCheck t name v isCustomRule (Some sp) = None
            \<longleftrightarrow> intCheck v \<and> 0 \<le> intValue v \<and> intValue v \<le> 1000))"
proof -
  have r: "intCheck v \<Longrightarrow> range_check v 0 1000 = (0 \<le> intValue v \<and> intValue v \<le> 1000)"
    using intCheck_range [of v 0 1000] by simp
  have vc: "valueCheck t name v sp = None \<longleftrightarrow> intCheck v \<and> 0 \<le> intValue v \<and> intValue v \<le> 1000"
    using r by (auto simp: valueCheck_ColSpan [OF assms])
  have "attrCheck t name v isCustomRule (Some sp) = None
          \<longleftrightarrow> intCheck v \<and> 0 \<le> intValue v \<and> intValue v \<le> 1000"
    if ne: "\<not> exemptName isCustomRule name" and tr: "nonEmptyPhrases t"
  proof (cases "valueCheck t name v sp")
    case None
    with vc ne show ?thesis
      by (simp add: attrCheck_not_exempt)
  next
    case (Some m)
    then have "m \<noteq> []"
      using spanMessage_nonempty [OF tr]
      by (auto simp: valueCheck_ColSpan [OF assms] split: if_splits)
    with Some vc ne show ?thesis
      by (simp add: attrCheck_not_exempt)
  qed
  with vc show ?thesis by blast
qed

theorem colSpan_valid_iff_witness:
  "attrCheck echoTranslator ''colspan'' ''1000'' False (Some \<lparr>type = Named ''ColSpan''\<rparr>) = None
   \<and> attrCheck echoTranslator ''colspan'' ''0'' False (Some \<lparr>type = Named ''ColSpan''\<rparr>) = None
   \<and> attrCheck echoTranslator ''colspan'' ''1001'' False (Some \<lparr>type = Named ''ColSpan''\<rparr>) \<noteq> None
   \<and> attrCheck echoTranslator ''colspan'' ''-1'' False (Some \<lparr>type = Named ''ColSpan''\<rparr>) \<noteq> None"
proof -
  have ty: "type \<lparr>type = Named ''ColSpan''\<rparr> = Named ''ColSpan''"
    by simp
  note c = colSpan_valid_iff [OF ty, of echoTranslator "''colspan''" _ False, THEN conjunct2, rule_format,
      OF conjI [OF sample_names_not_exempt(2) echo_nonEmptyPhrases]]
  have "attrCheck echoTranslator ''colspan'' ''1000'' False (Some \<lparr>type = Named ''ColSpan''\<rparr>) = None"
    by (simp add: c eval_digits)
  moreover have "attrCheck echoTranslator ''colspan'' ''0'' False (Some \<lparr>type = Named ''ColSpan''\<rparr>) = None"
    by (simp add: c eval_digits)
  moreover have "attrCheck echoTranslator ''colspan'' ''1001'' False (Some \<lparr>type = Named ''ColSpan''\<rparr>) \<noteq> None"
    by (simp add: c eval_digits)
  moreover have "attrCheck echoTranslator ''colspan'' ''-1'' False (Some \<lparr>type = Named ''ColSpan''\<rparr>) \<noteq> None"
    by (simp add: c eval_digits)
  ultimately show ?thesis by simp
qed

section \<open>TabIndex\<close>

lemma valueCheck_TabIndex:
  "type sp = Named ''TabIndex'' \<Longrightarrow>
   valueCheck t name v sp =
     (if intCheck v
      then (if - 1 \<le> intValue v then None
            else Some (tabIndexBehavesMessage t (theNameAttribute t name)))
      else Some (tabIndexExpectsMessage t (theNameAttribute t name)))"
  by (simp add: valueCheck_def Let_def intCheck_parseInt)

lemma tabIndex_messages_nonempty:
  "nonEmptyPhrases t \<Longrightarrow> tabIndexBehavesMessage t a \<noteq> [] \<and> tabIndexExpectsMessage t a \<noteq> []"
  by (simp add: tabIndexBehavesMessage_def tabIndexExpectsMessage_def nonEmptyPhrases_def)

text \<open>
  C6. For a spec of type TabIndex, the values accepted are exactly the integers (intCheck)
  that are at least -1; an integer below -1 is rejected with the "behaves the same as -1"
  message and a value that is no integer with the "expects either" message. This holds
  of valueCheck, and of attrCheck for a name that is not exempt, given a translator whose
  phrases are not empty. "-1", "0" and "5" are valid and "-2" gets the special message,
  as the second theorem evaluates.
\<close>

theorem tabIndex_valid_iff:
  assumes "type sp = Named ''TabIndex''"
  shows "valueCheck t name v sp =
           (if intCheck v
            then (if - 1 \<le> intValue v then None
                  else Some (tabIndexBehavesMessage t (theNameAttribute t name)))
            else Some (tabIndexExpectsMessage t (theNameAttribute t name)))
    \<and> (\<not> exemptName isCustomRule name \<and> nonEmptyPhrases t \<longrightarrow>
         (attrCheck t name v isCustomRule (Some sp) = None \<longleftrightarrow> intCheck v \<and> - 1 \<le> intValue v)
         \<and> (intCheck v \<and> intValue v < - 1 \<longrightarrow>
              attrCheck t name v isCustomRule (Some sp) =
                Some \<lparr>invalidType = InvalidValue,
                      message = tabIndexBehavesMessage t (theNameAttribute t name)\<rparr>)
         \<and> (\<not> intCheck v \<longrightarrow>
              attrCheck t name v isCustomRule (Some sp) =
                Some \<lparr>invalidType = InvalidValue,
                      message = tabIndexExpectsMessage t (theNameAttribute t name)\<rparr>))"
proof -
  note vc = valueCheck_TabIndex [OF assms, of t name v]
  have "(attrCheck t name v isCustomRule (Some sp) = None \<longleftrightarrow> intCheck v \<and> - 1 \<le> intValue v)
         \<and> (intCheck v \<and> intValue v < - 1 \<longrightarrow>
              attrCheck t name v isCustomRule (Some sp) =
                Some \<lparr>invalidType = InvalidValue,
                      message = tabIndexBehavesMessage t (theNameAttribute t name)\<rparr>)
         \<and> (\<not> intCheck v \<longrightarrow>
              attrCheck t name v isCustomRule (Some sp) =
                Some \<lparr>invalidType = InvalidValue,
                      message = tabIndexExpectsMessage t (theNameAttribute t name)\<rparr>)"
    if ne: "\<not> exemptName isCustomRule name" and tr: "nonEmptyPhrases t"
    using tabIndex_messages_nonempty [OF tr, of "theNameAttribute t name"]
    by (auto simp: attrCheck_not_exempt [OF ne] vc)
  with vc show ?thesis by blast
qed

theorem tabIndex_valid_iff_witness:
  "attrCheck echoTranslator ''tabindex'' ''-1'' False (Some \<lparr>type = Named ''TabIndex''\<rparr>) = None
   \<and> attrCheck echoTranslator ''tabindex'' ''0'' False (Some \<lparr>type = Named ''TabIndex''\<rparr>) = None
   \<and> attrCheck echoTranslator ''tabindex'' ''5'' False (Some \<lparr>type = Named ''TabIndex''\<rparr>) = None
   \<and> attrCheck echoTranslator ''tabindex'' ''-2'' False (Some \<lparr>type = Named ''TabIndex''\<rparr>)
       = Some \<lparr>invalidType = InvalidValue, message = ''{0} behaves the same as {1} if {2}''\<rparr>
   \<and> attrCheck echoTranslator ''tabindex'' ''1.5'' False (Some \<lparr>type = Named ''TabIndex''\<rparr>)
       = Some \<lparr>invalidType = InvalidValue, message = ''{0} expects {1:c}''\<rparr>"
proof -
  have ty: "type \<lparr>type = Named ''TabIndex''\<rparr> = Named ''TabIndex''"
    by simp
  note c = tabIndex_valid_iff [OF ty, of echoTranslator "''tabindex''" _ False, THEN conjunct2,
      rule_format, OF conjI [OF sample_names_not_exempt(3) echo_nonEmptyPhrases]]
  have "attrCheck echoTranslator ''tabindex'' ''-1'' False (Some \<lparr>type = Named ''TabIndex''\<rparr>) = None"
    by (simp add: c [THEN conjunct1] eval_digits)
  moreover have "attrCheck echoTranslator ''tabindex'' ''0'' False (Some \<lparr>type = Named ''TabIndex''\<rparr>) = None"
    by (simp add: c [THEN conjunct1] eval_digits)
  moreover have "attrCheck echoTranslator ''tabindex'' ''5'' False (Some \<lparr>type = Named ''TabIndex''\<rparr>) = None"
    by (simp add: c [THEN conjunct1] eval_digits)
  moreover have "attrCheck echoTranslator ''tabindex'' ''-2'' False (Some \<lparr>type = Named ''TabIndex''\<rparr>)
       = Some \<lparr>invalidType = InvalidValue, message = ''{0} behaves the same as {1} if {2}''\<rparr>"
    using c [of "''-2''", THEN conjunct2, THEN conjunct1]
    by (simp add: eval_digits tabIndexBehavesMessage_def echoTranslator_def)
  moreover have "attrCheck echoTranslator ''tabindex'' ''1.5'' False (Some \<lparr>type = Named ''TabIndex''\<rparr>)
       = Some \<lparr>invalidType = InvalidValue, message = ''{0} expects {1:c}''\<rparr>"
    using c [of "''1.5''", THEN conjunct2, THEN conjunct2]
    by (simp add: eval_digits tabIndexExpectsMessage_def echoTranslator_def)
  ultimately show ?thesis by simp
qed

section \<open>CSSOpacity\<close>

lemma valueCheck_CSSOpacity:
  "type sp = Named ''CSSOpacity'' \<Longrightarrow>
   valueCheck t name v sp =
     (let (num, unit) = splitUnit v
      in if unit = ''%''
         then (if range_check num 0 100 then None
               else Some (opacityMessage t (theNameAttribute t name) ''0%'' ''100%''))
         else (if range_check num 0 1 then None
               else Some (opacityMessage t (theNameAttribute t name) ''0'' ''1'')))"
  by (simp add: valueCheck_def Let_def)

lemmas eval_numeric = range_check_def numericValue_def splitUnit_def isNumericChar_def
  splitSign_def isSign_def isDigit_def digitsVal_def digitVal_def

text \<open>The four values the specification lists: "50%" and "0.5" are accepted, "101%"
  and "1.1" are not.\<close>

lemma cssOpacity_listed_values:
  assumes "type sp = Named ''CSSOpacity''"
  shows "valueCheck t name ''50%'' sp = None"
    and "valueCheck t name ''101%'' sp = Some (opacityMessage t (theNameAttribute t name) ''0%'' ''100%'')"
    and "valueCheck t name ''0.5'' sp = None"
    and "valueCheck t name ''1.1'' sp = Some (opacityMessage t (theNameAttribute t name) ''0'' ''1'')"
  by (simp_all add: valueCheck_CSSOpacity [OF assms] eval_numeric)

text \<open>
  C5. The specification has a CSSOpacity value without the \<open>%\<close> unit accepted only
  when it is an unsuffixed number in [0, 1]. The branch compares the unit with \<open>%\<close> and
  otherwise never looks at it: \<open>0.5px\<close> splits into \<open>0.5\<close> and \<open>px\<close>, the number is in
  [0, 1], and the value is accepted, under every name and translator.
\<close>

theorem cssOpacity_accepts_other_unit:
  "splitUnit ''0.5px'' = (''0.5'', ''px'')
   \<and> valueCheck t name ''0.5px'' \<lparr>type = Named ''CSSOpacity''\<rparr> = None
   \<and> attrCheck t name ''0.5px'' isCustomRule (Some \<lparr>type = Named ''CSSOpacity''\<rparr>) = None"
proof -
  have s: "splitUnit ''0.5px'' = (''0.5'', ''px'')"
    by (simp add: splitUnit_def isNumericChar_def isSign_def isDigit_def)
  have v: "valueCheck t name ''0.5px'' \<lparr>type = Named ''CSSOpacity''\<rparr> = None"
    by (simp add: valueCheck_CSSOpacity eval_numeric)
  from s v show ?thesis
    by (simp add: attrCheck_def)
qed

section \<open>The class-naming rule and dynamic values\<close>

lemma classNameOnElement_scope_static:
  "r \<in> set (classNameOnElement match toArray t el) \<Longrightarrow> \<not> isDynamicValue (scope r)"
  by (auto simp: classNameOnElement_def classNameReport_def Let_def split: if_splits)

lemma classNameVerify_scope_static:
  "r \<in> set (classNameVerify match toArray t document) \<Longrightarrow> \<not> isDynamicValue (scope r)"
  by (auto simp: classNameVerify_def dest: classNameOnElement_scope_static)

text \<open>
  C3. An attribute token whose \<open>isDynamicValue\<close> is true is never the scope of a report of
  the class-naming rule's verify, whatever its text: the loop over the tokens skips it
  before its value is read.
\<close>

theorem classNameVerify_skips_dynamic:
  assumes "isDynamicValue tok"
  shows "tok \<notin> scope ` set (classNameVerify match toArray t document)"
proof
  assume "tok \<in> scope ` set (classNameVerify match toArray t document)"
  then obtain r :: "AttributeToken Report"
    where "r \<in> set (classNameVerify match toArray t document)" and "scope r = tok"
    by auto
  with assms show False
    using classNameVerify_scope_static by blast
qed

theorem classNameVerify_skips_dynamic_witness:
  "isDynamicValue sampleDynamicToken
   \<and> sampleDynamicToken \<in> set (getAttributeToken sampleClassElement ''class'')
   \<and> sampleDynamicToken
       \<notin> scope ` set (classNameVerify (=) sampleToArray echoTranslator [sampleClassElement])
   \<and> map scope (classNameVerify (=) sampleToArray echoTranslator [sampleClassElement])
       = [sampleStaticToken]"
proof -
  have d: "isDynamicValue sampleDynamicToken"
    by (simp add: sampleDynamicToken_def)
  have m: "sampleDynamicToken \<in> set (getAttributeToken sampleClassElement ''class'')"
    by (simp add: sampleClassElement_def)
  have s: "splitSpaces ''good  bad'' = [''good'', ''bad'']"
    by (simp add: isSpaceChar_def)
  have "map scope (classNameVerify (=) sampleToArray echoTranslator [sampleClassElement])
       = [sampleStaticToken]"
    by (simp add: classNameVerify_def classNameOnElement_def classNameReport_def Let_def
        sampleClassElement_def sampleToArray_def falsyValue_def s trim_def isSpaceChar_def
        sampleDynamicToken_def sampleStaticToken_def)
  with d m classNameVerify_skips_dynamic [OF d, of "(=)" sampleToArray echoTranslator "[sampleClassElement]"]
  show ?thesis by simp
qed

section \<open>The palpable-content rule and childless elements\<close>

lemma filter_scope_palpableOnElement:
  "filter (\<lambda>r. scope r = el) (palpableOnElement isPalpableElement isVoidElement t e) =
     (if e = el then palpableOnElement isPalpableElement isVoidElement t e else [])"
  by (auto simp: palpableOnElement_def emptyReport_def Let_def)

text \<open>
  C10. An element with no child node is empty for the palpable-content rule (the test
  over an empty list of children is true). So an element that is palpable and not void,
  has no children and is not excused by the aria-busy option gets exactly one report, the
  "should not be empty" one: the callback returns that single report, and among the
  reports of verify those scoped to the element are that report, once for each visit of
  the element.
\<close>

theorem palpable_childless_reported_once:
  assumes "isPalpableElement el (specs el) False (extendsExposableElements (ruleOption el))"
    and "\<not> isVoidElement el"
    and "\<not> (ignoreIfAriaBusy (ruleOption el) = Some True \<and> getAttribute el ''aria-busy'' = Some ''true'')"
    and "childNodes el = []"
  shows "palpableOnElement isPalpableElement isVoidElement t el = [emptyReport t el]
    \<and> filter (\<lambda>r. scope r = el) (palpableVerify isPalpableElement isVoidElement t document)
        = replicate (count_list document el) (emptyReport t el)"
proof -
  have one: "palpableOnElement isPalpableElement isVoidElement t el = [emptyReport t el]"
    using assms by (simp add: palpableOnElement_def)
  have "filter (\<lambda>r. scope r = el) (concat (map (palpableOnElement isPalpableElement isVoidElement t) doc))
        = replicate (count_list doc el) (emptyReport t el)" for doc
  proof (induction doc)
    case Nil
    show ?case by simp
  next
    case (Cons e doc)
    then show ?case
      by (simp add: filter_scope_palpableOnElement one)
  qed
  with one show ?thesis
    by (simp add: palpableVerify_def)
qed

theorem palpable_childless_reported_once_witness:
  "childNodes sampleEmptyElement = []
   \<and> palpableVerify (\<lambda>el sp svg ex. True) (\<lambda>el. False) echoTranslator [sampleEmptyElement]
       = [\<lparr>scope = sampleEmptyElement, message = ''{0} should not {1}'',
           line = None, col = None, raw = None\<rparr>]"
proof -
  have c: "childNodes sampleEmptyElement = []"
    by (simp add: sampleEmptyElement_def)
  have b: "\<not> (ignoreIfAriaBusy (ruleOption sampleEmptyElement) = Some True
              \<and> getAttribute sampleEmptyElement ''aria-busy'' = Some ''true'')"
    by (simp add: sampleEmptyElement_def)
  have "palpableOnElement (\<lambda>el sp svg ex. True) (\<lambda>el. False) echoTranslator sampleEmptyElement
          = [emptyReport echoTranslator sampleEmptyElement]"
    using palpable_childless_reported_once
      [of "\<lambda>el sp svg ex. True" sampleEmptyElement "\<lambda>el. False" echoTranslator "[]", OF _ _ b c]
    by simp
  with c show ?thesis
    by (simp add: palpableVerify_def emptyReport_def echoTranslator_def)
qed

section \<open>The dispatcher returns, and what it returns\<close>

lemma translatorReturns_obtain:
  assumes "translatorReturns tE"
  obtains t where "tE = returning t"
proof -
  from assms have "\<forall>tmpl. \<forall>keywords. \<exists>m. tE tmpl keywords = Some m"
    by (auto simp: translatorReturns_def)
  then obtain t where "\<And>tmpl keywords. tE tmpl keywords = Some (t tmpl keywords)"
    by metis
  then have "tE = returning t"
    by (auto simp: returning_def fun_eq_iff)
  then show ?thesis ..
qed

lemma returning_calls [simp]:
  "returning t tmpl keywords = Some (t tmpl keywords)"
  by (simp add: returning_def)

lemma returns_simps [simp]:
  "returnFalse = Some (JBool False)"
  "returnString (Some m) = Some (JStr m)"
  "returnString None = None"
  by (simp_all add: returnFalse_def returnString_def)

lemmas messagesE = theNameAttributeE_def spanMessageE_def tabIndexBehavesMessageE_def
  tabIndexExpectsMessageE_def opacityMessageE_def

lemma includesEnumE_returns:
  "\<exists>r. includesEnumE (returning t) name v enumValues = Some r \<and> falseOrString r"
  by (simp add: includesEnumE_def Let_def messagesE)

lemma valueCheckE_unchecked:
  assumes "type sp = Named ty" and "ty \<notin> set checkedTypes"
  shows "valueCheckE pc (returning t) name v sp = Some (JBool False)"
  using assms by (simp add: valueCheckE_def typeofString_def theNameAttributeE_def checkedTypes_def)

text \<open>With collaborators that return, valueCheck returns \<^verbatim>\<open>false\<close> or a string.\<close>

lemma valueCheckE_returns:
  assumes "translatorReturns tE" and "checkersReturn pc"
  shows "\<exists>r. valueCheckE pc tE name v sp = Some r \<and> falseOrString r"
proof -
  obtain t where t: "tE = returning t"
    using assms(1) by (rule translatorReturns_obtain)
  from assms(2) obtain i u f z s n where c:
    "callIntCheck pc v = Some i" "callUintCheck pc v = Some u" "callFloatCheck pc v = Some f"
    "callNonZeroUintCheck pc v = Some z" "callSplitUnit pc v = Some s"
    "callNumberCheckWithUnit pc v [''deg'', ''grad'', ''rad'', ''turn''] = Some n"
    by (fastforce simp: checkersReturn_def)
  define rng where "rng = (\<lambda>x lo hi. the (callRange pc x lo hi))"
  have r: "callRange pc x lo hi = Some (rng x lo hi)" for x lo hi
    using assms(2) by (auto simp: checkersReturn_def rng_def)
  have e: "\<exists>r. includesEnumE (returning t) name v enumValues = Some r \<and> falseOrString r"
    for enumValues
    by (rule includesEnumE_returns)
  show ?thesis
  proof (cases "type sp")
    case (Enum enum)
    then show ?thesis
      using e [of enum]
      by (simp add: valueCheckE_def t typeofString_def inOperator_def enumMember_def)
  next
    case (Named ty)
    show ?thesis
    proof (cases "ty \<in> set checkedTypes")
      case False
      with Named show ?thesis
        by (simp add: t valueCheckE_unchecked)
    next
      case True
      then have "ty = ''NonEmptyString'' \<or> ty = ''Int'' \<or> ty = ''Uint'' \<or> ty = ''Float''
          \<or> ty = ''NonZeroUint'' \<or> ty = ''ZeroToOne'' \<or> ty = ''ColSpan'' \<or> ty = ''ReferrerPolicy''
          \<or> ty = ''RowSpan'' \<or> ty = ''TabIndex'' \<or> ty = ''URLHash'' \<or> ty = ''CSSAngle''
          \<or> ty = ''CSSBlendMode'' \<or> ty = ''CSSOpacity''"
        by (simp add: checkedTypes_def)
      with Named e [of referrerPolicies] e [of blendModes] show ?thesis
        by (elim disjE; hypsubst;
            auto simp: valueCheckE_def t typeofString_def c r messagesE
              split: prod.splits option.splits)
    qed
  qed
qed

text \<open>A translator that throws takes attrCheck with it.\<close>

lemma attrCheckE_throws:
  "attrCheckE pc throwingTranslator ''href'' v False None = None"
  by (simp add: attrCheckE_def throwingTranslator_def theNameAttributeE_def
      testDataAttr_def testAriaOrRole_def)

text \<open>
  C8. attrCheck is total. In the reading that keeps the exceptions (a call of the
  translator or of a primitive checker may throw, as may \<^verbatim>\<open>in\<close> on a value that is no
  object) and the untyped results, whenever the collaborators return, attrCheck returns,
  for every name, value, flag and spec, absent or not; and the value returned is
  \<^verbatim>\<open>false\<close>, or the 'non-existent' record with a string message, or an 'invalid-value'
  record with a non-empty string message: never null or undefined, and one of the three
  only, as they are different values.
\<close>

theorem attrCheckE_total:
  assumes "translatorReturns tE" and "checkersReturn pc"
  shows "attrCheckE pc tE name v isCustomRule spec = Some (JBool False)
    \<or> (\<exists>m. attrCheckE pc tE name v isCustomRule spec =
          Some (JObj [(''invalidType'', JStr ''non-existent''), (''message'', JStr m)]))
    \<or> (\<exists>m. m \<noteq> [] \<and> attrCheckE pc tE name v isCustomRule spec =
          Some (JObj [(''invalidType'', JStr ''invalid-value''), (''message'', JStr m)]))"
proof (cases spec)
  case None
  obtain t where t: "tE = returning t"
    using assms(1) by (rule translatorReturns_obtain)
  from None show ?thesis
    by (simp add: attrCheckE_def t theNameAttributeE_def)
next
  case (Some sp)
  obtain r where r: "valueCheckE pc tE name v sp = Some r" "falseOrString r"
    using valueCheckE_returns [OF assms] by blast
  from r(2) Some r(1) show ?thesis
    by (cases r) (simp_all add: attrCheckE_def)
qed

theorem attrCheckE_total_witness:
  "translatorReturns (returning echoTranslator) \<and> checkersReturn specCheckers
   \<and> attrCheckE specCheckers (returning echoTranslator) ''href'' ''x'' False None
       = Some (JObj [(''invalidType'', JStr ''non-existent''), (''message'', JStr ''{0} is {1}'')])
   \<and> attrCheckE specCheckers (returning echoTranslator) ''href'' ''x'' False
         (Some \<lparr>type = Named ''URL''\<rparr>) = Some (JBool False)
   \<and> attrCheckE specCheckers (returning echoTranslator) ''colspan'' ''1001'' False
         (Some \<lparr>type = Named ''ColSpan''\<rparr>)
       = Some (JObj [(''invalidType'', JStr ''invalid-value''),
                     (''message'', JStr ''{0} expects {1:c}'')])"
proof -
  have tr: "translatorReturns (returning echoTranslator)"
    by (simp add: translatorReturns_def)
  have ch: "checkersReturn specCheckers"
    by (simp add: checkersReturn_def specCheckers_def)
  have n: "\<not> testDataAttr ''href''" "\<not> testAriaOrRole ''href''"
    "\<not> testDataAttr ''colspan''" "\<not> testAriaOrRole ''colspan''"
    by (simp_all add: testDataAttr_def testAriaOrRole_def)
  have a: "attrCheckE specCheckers (returning echoTranslator) ''href'' ''x'' False None
       = Some (JObj [(''invalidType'', JStr ''non-existent''), (''message'', JStr ''{0} is {1}'')])"
    using attrCheckE_total [OF tr ch, of "''href''" "''x''" False None]
    by (simp add: attrCheckE_def n theNameAttributeE_def echoTranslator_def)
  have b: "attrCheckE specCheckers (returning echoTranslator) ''href'' ''x'' False
         (Some \<lparr>type = Named ''URL''\<rparr>) = Some (JBool False)"
    using attrCheckE_total [OF tr ch, of "''href''" "''x''" False "Some \<lparr>type = Named ''URL''\<rparr>"]
    by (simp add: attrCheckE_def n valueCheckE_def typeofString_def theNameAttributeE_def)
  have c: "attrCheckE specCheckers (returning echoTranslator) ''colspan'' ''1001'' False
         (Some \<lparr>type = Named ''ColSpan''\<rparr>)
       = Some (JObj [(''invalidType'', JStr ''invalid-value''),
                     (''message'', JStr ''{0} expects {1:c}'')])"
    using attrCheckE_total [OF tr ch, of "''colspan''" "''1001''" False "Some \<lparr>type = Named ''ColSpan''\<rparr>"]
    by (simp add: attrCheckE_def n valueCheckE_def typeofString_def messagesE specCheckers_def
        echoTranslator_def intCheck_def range_check_def numericValue_def splitSign_def isSign_def
        isDigit_def digitsVal_def digitVal_def)
  from tr ch a b c show ?thesis by simp
qed

text \<open>The two readings agree: with the translator and the checkers of the first reading,
  the second returns the value of the first.\<close>

lemmas messages = theNameAttribute_def spanMessage_def tabIndexBehavesMessage_def
  tabIndexExpectsMessage_def opacityMessage_def

lemma includesEnumE_agrees:
  "includesEnumE (returning t) name v enumValues = Some (jsOfString (includesEnum t name v enumValues))"
  by (simp add: includesEnumE_def includesEnum_def Let_def jsOfString_def theNameAttributeE_def
      theNameAttribute_def)

lemma valueCheckE_agrees_checked:
  assumes "ty \<in> set checkedTypes" and "type sp = Named ty"
  shows "valueCheckE specCheckers (returning t) name v sp = Some (jsOfString (valueCheck t name v sp))"
proof -
  from assms(1) have "ty = ''NonEmptyString'' \<or> ty = ''Int'' \<or> ty = ''Uint'' \<or> ty = ''Float''
      \<or> ty = ''NonZeroUint'' \<or> ty = ''ZeroToOne'' \<or> ty = ''ColSpan'' \<or> ty = ''ReferrerPolicy''
      \<or> ty = ''RowSpan'' \<or> ty = ''TabIndex'' \<or> ty = ''URLHash'' \<or> ty = ''CSSAngle''
      \<or> ty = ''CSSBlendMode'' \<or> ty = ''CSSOpacity''"
    by (simp add: checkedTypes_def)
  with assms(2) show ?thesis
    by (elim disjE; hypsubst;
        simp add: valueCheckE_def valueCheck_def typeofString_def includesEnumE_agrees
          specCheckers_def messagesE messages Let_def jsOfString_def
          split: prod.splits option.splits)
qed

lemma valueCheckE_agrees:
  "valueCheckE specCheckers (returning t) name v sp = Some (jsOfString (valueCheck t name v sp))"
proof (cases "type sp")
  case (Enum enum)
  then show ?thesis
    by (simp add: valueCheckE_def valueCheck_def typeofString_def inOperator_def enumMember_def
        includesEnumE_agrees)
next
  case (Named ty)
  then show ?thesis
    by (cases "ty \<in> set checkedTypes")
      (simp_all add: valueCheckE_agrees_checked valueCheckE_unchecked valueCheck_unchecked
        jsOfString_def)
qed

lemma attrCheckE_agrees:
  "attrCheckE specCheckers (returning t) name v isCustomRule spec
     = Some (jsOfInvalid (attrCheck t name v isCustomRule spec))"
  by (simp add: attrCheckE_def attrCheck_def valueCheckE_agrees jsOfInvalid_def jsOfString_def
      invalidTypeName_def theNameAttributeE_def theNameAttribute_def split: option.splits)

end
